theory Spec2Isabelle
  imports Complex_Main "HOL-Library.Word" "HOL-Library.AList" "HOL-Library.Multiset"
begin

section \<open>Strings and paths\<close>

text \<open>
  Python strings are modelled as \<open>string\<close>; the path functions are those of
  \<open>posixpath\<close>, which is what \<open>os.path\<close> is on the platforms the scripts run on.
\<close>

type_synonym path = string

definition sep :: char where
  "sep = CHR ''/''"

text \<open>\<open>head == '/' * len(head)\<close> of \<open>posixpath.dirname\<close>.\<close>

definition all_seps :: "string \<Rightarrow> bool" where
  "all_seps p = (set p \<subseteq> {sep})"

text \<open>\<open>p.rstrip('/')\<close>.\<close>

definition rstrip_sep :: "string \<Rightarrow> string" where
  "rstrip_sep p = rev (dropWhile (\<lambda>c. c = sep) (rev p))"

text \<open>
  \<open>os.path.basename(p)\<close>: \<open>i = p.rfind('/') + 1; return p[i:]\<close>.
\<close>

definition os_path_basename :: "path \<Rightarrow> string" where
  "os_path_basename p = rev (takeWhile (\<lambda>c. c \<noteq> sep) (rev p))"

text \<open>
  \<open>os.path.dirname(p)\<close>: \<open>head = p[:i]\<close>, and
  \<open>if head and head != '/' * len(head): head = head.rstrip('/')\<close>.
\<close>

definition os_path_dirname :: "path \<Rightarrow> string" where
  "os_path_dirname p =
     (let head = rev (dropWhile (\<lambda>c. c \<noteq> sep) (rev p))
      in if head \<noteq> [] \<and> \<not> all_seps head then rstrip_sep head else head)"

text \<open>
  \<open>os.path.join(a, b)\<close> with two arguments: an absolute \<open>b\<close> replaces \<open>a\<close>;
  otherwise the parts are joined with one separator unless \<open>a\<close> is empty or ends in one.
\<close>

definition os_path_join :: "path \<Rightarrow> path \<Rightarrow> path" where
  "os_path_join a b =
     (if b \<noteq> [] \<and> hd b = sep then b
      else if a = [] \<or> last a = sep then a @ b
      else a @ [sep] @ b)"

text \<open>
  \<open>os.path.splitext(p)[0]\<close>: the extension starts at the last dot of the last path
  component, unless only dots come before it in that component.
\<close>

definition splitext_root :: "path \<Rightarrow> string" where
  "splitext_root p =
     (let name = os_path_basename p;
          ext = takeWhile (\<lambda>c. c \<noteq> CHR ''.'') (rev name)
      in if CHR ''.'' \<in> set name
            \<and> \<not> set (take (length name - length ext - 1) name) \<subseteq> {CHR ''.''}
         then take (length p - length ext - 1) p
         else p)"

text \<open>\<open>str.lower()\<close> on ASCII letters (the characters of a \<open>string\<close> are bytes).\<close>

definition char_lower :: "char \<Rightarrow> char" where
  "char_lower c =
     (case map_of (zip ''ABCDEFGHIJKLMNOPQRSTUVWXYZ'' ''abcdefghijklmnopqrstuvwxyz'') c of
        Some l \<Rightarrow> l
      | None \<Rightarrow> c)"

definition lower :: "string \<Rightarrow> string" where
  "lower s = map char_lower s"

definition endswith :: "string \<Rightarrow> string \<Rightarrow> bool" where
  "endswith s suf = (length suf \<le> length s \<and> drop (length s - length suf) s = suf)"

text \<open>\<open>filename.lower().endswith(('.png', '.jpg', '.jpeg', '.ppm'))\<close>.\<close>

definition is_image_name :: "string \<Rightarrow> bool" where
  "is_image_name filename =
     (let l = lower filename
      in endswith l ''.png'' \<or> endswith l ''.jpg'' \<or> endswith l ''.jpeg''
         \<or> endswith l ''.ppm'')"

text \<open>Decimal rendering of a natural number, as \<open>str(n)\<close> and \<open>f"{n}"\<close> give it.\<close>

fun show_nat :: "nat \<Rightarrow> string" where
  "show_nat n =
     (if n < 10 then [''0123456789'' ! n]
      else show_nat (n div 10) @ [''0123456789'' ! (n mod 10)])"

declare show_nat.simps [simp del]

text \<open>\<open>repr\<close> of a string without characters that need escaping.\<close>

definition py_repr :: "string \<Rightarrow> string" where
  "py_repr s = [CHR 0x27] @ s @ [CHR 0x27]"


section \<open>Exceptions and the world the scripts act on\<close>

text \<open>
  An exception is represented by the text \<open>str(e)\<close> that the handlers print.
\<close>

datatype exn = Exception string

fun exn_str :: "exn \<Rightarrow> string" where
  "exn_str (Exception s) = s"

type_synonym bytes = "8 word list"

text \<open>
  The part of the operating system the scripts touch: regular files with their content,
  directories, the lines written to standard output, and a log of the calls of
  \<open>os.makedirs\<close> in the order they were made.  Files and directories are kept under
  \<open>fs_key\<close> of their path, so that \<open>out\<close> and \<open>out/\<close> name the same directory.
  Symbolic links, permissions, \<open>.\<close> and \<open>..\<close> are not modelled.
\<close>

record world =
  files :: "(path \<times> bytes) list"
  dirs :: "path list"
  stdout :: "string list"
  makedirs_calls :: "path list"

definition fs_key :: "path \<Rightarrow> path" where
  "fs_key p = (if p \<noteq> [] \<and> all_seps p then [sep] else rstrip_sep p)"

definition os_path_isdir :: "world \<Rightarrow> path \<Rightarrow> bool" where
  "os_path_isdir w p = (p \<noteq> [] \<and> (fs_key p = [sep] \<or> fs_key p \<in> set (dirs w)))"

definition is_file :: "world \<Rightarrow> path \<Rightarrow> bool" where
  "is_file w p = (p \<noteq> [] \<and> map_of (files w) (fs_key p) \<noteq> None)"

definition os_path_exists :: "world \<Rightarrow> path \<Rightarrow> bool" where
  "os_path_exists w p = (is_file w p \<or> os_path_isdir w p)"

text \<open>
  A computation that may raise and may change the world: the result is \<open>Inl e\<close> when
  the exception \<open>e\<close> propagates, and the world is returned as it was left.
\<close>

type_synonym 'a io = "world \<Rightarrow> (exn + 'a) \<times> world"

definition return_io :: "'a \<Rightarrow> 'a io" where
  "return_io a w = (Inr a, w)"

definition raise_io :: "exn \<Rightarrow> 'a io" where
  "raise_io e w = (Inl e, w)"

definition bind_io :: "'a io \<Rightarrow> ('a \<Rightarrow> 'b io) \<Rightarrow> 'b io" where
  "bind_io m f w = (case m w of (Inl e, w') \<Rightarrow> (Inl e, w') | (Inr a, w') \<Rightarrow> f a w')"

text \<open>A computation that reads the world and changes nothing.\<close>

definition reading :: "(world \<Rightarrow> exn + 'a) \<Rightarrow> 'a io" where
  "reading f w = (f w, w)"

text \<open>\<open>try: body  except Exception as e: handler(e)\<close>.\<close>

definition try_except :: "'a io \<Rightarrow> (exn \<Rightarrow> 'a io) \<Rightarrow> 'a io" where
  "try_except body handler w =
     (case body w of (Inl e, w') \<Rightarrow> handler e w' | (Inr a, w') \<Rightarrow> (Inr a, w'))"

definition print :: "string \<Rightarrow> unit io" where
  "print s w = (Inr (), w\<lparr>stdout := stdout w @ [s]\<rparr>)"

text \<open>
  \<open>os.path.getsize\<close>.  The size of a directory entry depends on the file system; 4096 is
  a representative value (\<open>Image.open\<close> fails on a directory, so the value is never
  printed).
\<close>

definition os_path_getsize :: "world \<Rightarrow> path \<Rightarrow> exn + nat" where
  "os_path_getsize w p =
     (if p = [] then Inl (Exception (''[Errno 2] No such file or directory: '' @ py_repr p))
      else case map_of (files w) (fs_key p) of
        Some b \<Rightarrow> Inr (length b)
      | None \<Rightarrow>
          if os_path_isdir w p then Inr 4096
          else Inl (Exception (''[Errno 2] No such file or directory: '' @ py_repr p)))"

text \<open>The directories \<open>os.makedirs(p)\<close> has to exist afterwards: \<open>p\<close> and its parents.\<close>

definition with_parents :: "path \<Rightarrow> path list" where
  "with_parents p =
     remdups ([fs_key (take i p). i \<leftarrow> [1..<length p], p ! i = sep] @ [fs_key p])"

text \<open>
  \<open>os.makedirs(p)\<close> with the default \<open>exist_ok=False\<close>: raises on the empty path and on
  an existing one, otherwise creates \<open>p\<close> and the missing parents.
\<close>

definition os_makedirs :: "path \<Rightarrow> unit io" where
  "os_makedirs p w =
     (let w1 = w\<lparr>makedirs_calls := makedirs_calls w @ [p]\<rparr>
      in if p = [] then
           (Inl (Exception (''[Errno 2] No such file or directory: '' @ py_repr p)), w1)
         else if os_path_exists w p then
           (Inl (Exception (''[Errno 17] File exists: '' @ py_repr p)), w1)
         else
           (Inr (), w1\<lparr>dirs := dirs w @ filter (\<lambda>d. \<not> os_path_isdir w d) (with_parents p)\<rparr>))"

text \<open>
  \<open>os.listdir(p)\<close> for a directory \<open>p\<close>: the names of the entries directly below it.
  The order is the one the world lists them in (Python leaves it unspecified).
\<close>

definition os_listdir :: "world \<Rightarrow> path \<Rightarrow> string list" where
  "os_listdir w p =
     [os_path_basename q. q \<leftarrow> map fst (files w) @ dirs w,
        q \<noteq> fs_key p \<and> os_path_dirname q \<noteq> [] \<and> fs_key (os_path_dirname q) = fs_key p]"

text \<open>
  \<open>get_file_size\<close> of \<open>image_compressor.py\<close>.  \<open>size_bytes / 1024\<close> and
  \<open>size_bytes / (1024 * 1024)\<close> are exact in binary floating point (for sizes below
  \<open>2 ^ 53\<close>), and \<open>:.2f\<close> rounds the exact value to two decimals, ties to even.
\<close>

definition round_half_even :: "nat \<Rightarrow> nat \<Rightarrow> nat" where
  "round_half_even n d =
     (let q = n div d; r = n mod d
      in if 2 * r < d then q
         else if d < 2 * r then q + 1
         else if even q then q else q + 1)"

definition fmt_2f :: "nat \<Rightarrow> nat \<Rightarrow> string" where
  "fmt_2f n d =
     (let h = round_half_even (n * 100) d
      in show_nat (h div 100) @ ''.'' @ show_nat (h mod 100 div 10) @ show_nat (h mod 10))"

definition get_file_size :: "world \<Rightarrow> path \<Rightarrow> exn + string" where
  "get_file_size w file_path =
     (case os_path_getsize w file_path of
        Inl e \<Rightarrow> Inl e
      | Inr size_bytes \<Rightarrow>
          if size_bytes < 1024 * 1024 then Inr (fmt_2f size_bytes 1024 @ '' KB'')
          else Inr (fmt_2f size_bytes (1024 * 1024) @ '' MB''))"


section \<open>The imaging library\<close>

text \<open>
  Pillow is not part of the repository: its operations are a parameter of the model.
  Each may raise.  \<open>im_open\<close> is \<open>Image.open\<close> on the content of a file;
  \<open>im_rebuild\<close> is the sequence \<open>list(img.getdata())\<close>, \<open>Image.new(img.mode, img.size)\<close>,
  \<open>putdata\<close>; \<open>im_resize\<close> and \<open>im_thumbnail\<close> use the Lanczos filter; \<open>im_quantize\<close> is
  \<open>quantize(colors=256, method=LIBIMAGEQUANT, dither=...)\<close>; \<open>im_encode img path fmt params\<close>
  is what \<open>img.save(path, fmt, optimize=True, ...)\<close> writes, where \<open>fmt = None\<close> lets
  the library choose the format from the extension of the path and \<open>params\<close> holds
  \<open>quality\<close> and \<open>method\<close> when they are passed.
\<close>

datatype dither_mode = NONE | ORDERED | RASTERIZE | FLOYDSTEINBERG

record 'img imaging =
  im_open :: "bytes \<Rightarrow> exn + 'img"
  im_size :: "'img \<Rightarrow> nat \<times> nat"
  im_mode :: "'img \<Rightarrow> string"
  im_has_transparency :: "'img \<Rightarrow> bool"
  im_rebuild :: "'img \<Rightarrow> exn + 'img"
  im_resize :: "'img \<Rightarrow> int \<times> int \<Rightarrow> exn + 'img"
  im_thumbnail :: "'img \<Rightarrow> int \<times> int \<Rightarrow> exn + 'img"
  im_quantize :: "'img \<Rightarrow> dither_mode \<Rightarrow> exn + 'img"
  im_convert_rgb :: "'img \<Rightarrow> exn + 'img"
  im_encode :: "'img \<Rightarrow> path \<Rightarrow> string option \<Rightarrow> (int \<times> int) option \<Rightarrow> exn + bytes"

text \<open>Sequencing of library calls that may raise.\<close>

definition and_then :: "exn + 'a \<Rightarrow> ('a \<Rightarrow> exn + 'b) \<Rightarrow> exn + 'b" where
  "and_then r f = (case r of Inl e \<Rightarrow> Inl e | Inr a \<Rightarrow> f a)"

text \<open>\<open>Image.open(path)\<close>: the file is read from the world and handed to the library.\<close>

definition Image_open :: "'img imaging \<Rightarrow> world \<Rightarrow> path \<Rightarrow> exn + 'img" where
  "Image_open lib w p =
     (if p = [] then Inl (Exception (''[Errno 2] No such file or directory: '' @ py_repr p))
      else case map_of (files w) (fs_key p) of
        Some b \<Rightarrow> im_open lib b
      | None \<Rightarrow>
          if os_path_isdir w p
          then Inl (Exception (''[Errno 21] Is a directory: '' @ py_repr p))
          else Inl (Exception (''[Errno 2] No such file or directory: '' @ py_repr p)))"

text \<open>
  \<open>img.save(path, ...)\<close>: the encoded image replaces the content of the file.  The
  target must not be a directory and its directory must exist; a failed save leaves
  the world as it was.
\<close>

definition Image_save ::
  "'img imaging \<Rightarrow> 'img \<Rightarrow> path \<Rightarrow> string option \<Rightarrow> (int \<times> int) option \<Rightarrow> unit io" where
  "Image_save lib img p fmt params w =
     (case im_encode lib img p fmt params of
        Inl e \<Rightarrow> (Inl e, w)
      | Inr b \<Rightarrow>
          if p = [] \<or> (os_path_dirname p \<noteq> [] \<and> \<not> os_path_isdir w (os_path_dirname p)) then
            (Inl (Exception (''[Errno 2] No such file or directory: '' @ py_repr p)), w)
          else if os_path_isdir w p then
            (Inl (Exception (''[Errno 21] Is a directory: '' @ py_repr p)), w)
          else (Inr (), w\<lparr>files := AList.update (fs_key p) b (files w)\<rparr>))"


section \<open>The command-line worker: \<open>compress_image\<close>\<close>

text \<open>The nine fields of \<open>args_tuple\<close>, under the names the worker unpacks them to.\<close>

record job =
  input_path :: path
  output_path :: path
  quality :: int
  use_webp :: bool
  webp_method :: int
  resize_percentage :: "int option"
  max_dimension :: "int option"
  strip_exif :: bool
  dither :: dither_mode

text \<open>Truth value of an optional integer: \<open>None\<close> and \<open>0\<close> are false.\<close>

definition truthy :: "int option \<Rightarrow> bool" where
  "truthy x = (case x of None \<Rightarrow> False | Some n \<Rightarrow> n \<noteq> 0)"

text \<open>
  \<open>int(n / 100)\<close> for an integer \<open>n\<close>: the quotient truncated towards zero.  (The
  floating-point quotient has the same integer part as the exact one for every \<open>n\<close> an
  image dimension times a percentage can reach.)
\<close>

definition int_div_100 :: "int \<Rightarrow> int" where
  "int_div_100 n = (if 0 \<le> n then n div 100 else - ((- n) div 100))"

text \<open>Lines 38-40: the size the image is resized to.\<close>

definition scaled_size :: "int \<Rightarrow> nat \<times> nat \<Rightarrow> int \<times> int" where
  "scaled_size pct sz =
     (case sz of (width, height) \<Rightarrow>
        (int_div_100 (int width * pct), int_div_100 (int height * pct)))"

text \<open>Lines 30-34.  \<open>hasattr(img, 'info')\<close> holds for every Pillow image.\<close>

definition strip_stage :: "'img imaging \<Rightarrow> bool \<Rightarrow> 'img \<Rightarrow> exn + 'img" where
  "strip_stage lib strip img = (if strip then im_rebuild lib img else Inr img)"

text \<open>Lines 37-43.\<close>

definition resize_stage :: "'img imaging \<Rightarrow> job \<Rightarrow> 'img \<Rightarrow> exn + 'img" where
  "resize_stage lib j img =
     (if truthy (resize_percentage j) then
        im_resize lib img (scaled_size (the (resize_percentage j)) (im_size lib img))
      else if truthy (max_dimension j) then
        im_thumbnail lib img (the (max_dimension j), the (max_dimension j))
      else Inr img)"

text \<open>Lines 46-48.\<close>

definition ensure_output_dir :: "path \<Rightarrow> unit io" where
  "ensure_output_dir out w =
     (let output_dir = os_path_dirname out
      in if \<not> os_path_exists w output_dir then os_makedirs output_dir w else (Inr (), w))"

text \<open>Lines 51-61.\<close>

definition encode_stage :: "'img imaging \<Rightarrow> job \<Rightarrow> 'img \<Rightarrow> unit io" where
  "encode_stage lib j img =
     (if use_webp j then
        Image_save lib img (output_path j) (Some ''webp'') (Some (quality j, webp_method j))
      else
        (case (if im_mode lib img = ''RGBA'' \<or> im_has_transparency lib img
               then im_quantize lib img (dither j)
               else and_then (im_convert_rgb lib img) (\<lambda>rgb. im_quantize lib rgb (dither j)))
         of Inl e \<Rightarrow> raise_io e
          | Inr pal \<Rightarrow> Image_save lib pal (output_path j) None None))"

text \<open>Line 64.\<close>

definition success_line :: "job \<Rightarrow> string \<Rightarrow> string \<Rightarrow> string" where
  "success_line j original_size compressed_size =
     ''  - Input: '' @ os_path_basename (input_path j) @ '' ('' @ original_size
       @ '') -> Output: '' @ os_path_basename (output_path j) @ '' ('' @ compressed_size @ '')''"

text \<open>Line 67.\<close>

definition error_line :: "job \<Rightarrow> exn \<Rightarrow> string" where
  "error_line j e =
     ''Error compressing '' @ os_path_basename (input_path j) @ '': '' @ exn_str e"

text \<open>The body of the \<open>try\<close> statement, lines 26-64.\<close>

definition compress_image_try :: "'img imaging \<Rightarrow> job \<Rightarrow> string io" where
  "compress_image_try lib j =
     bind_io (reading (\<lambda>w. get_file_size w (input_path j))) (\<lambda>original_size.
     bind_io (reading (\<lambda>w. Image_open lib w (input_path j))) (\<lambda>img.
     bind_io (reading (\<lambda>w. strip_stage lib (strip_exif j) img)) (\<lambda>img.
     bind_io (reading (\<lambda>w. resize_stage lib j img)) (\<lambda>img.
     bind_io (ensure_output_dir (output_path j)) (\<lambda>_.
     bind_io (encode_stage lib j img) (\<lambda>_.
     bind_io (reading (\<lambda>w. get_file_size w (output_path j))) (\<lambda>compressed_size.
     return_io (success_line j original_size compressed_size))))))))"

text \<open>
  \<open>compress_image(args_tuple)\<close>, lines 17-67.  The result \<open>None\<close> is Python's \<open>None\<close>.
\<close>

definition compress_image :: "'img imaging \<Rightarrow> job \<Rightarrow> string option io" where
  "compress_image lib j w =
     (if input_path j = [] \<or> \<not> os_path_exists w (input_path j) then
        bind_io (print (''Skipping missing file: '' @ input_path j)) (\<lambda>_. return_io None) w
      else
        try_except
          (bind_io (compress_image_try lib j) (\<lambda>line. return_io (Some line)))
          (\<lambda>e. return_io (Some (error_line j e))) w)"


section \<open>The worker of the graphical front end: \<open>compress_image_worker\<close>\<close>

text \<open>The eight fields of its \<open>args_tuple\<close>.\<close>

record gui_job =
  g_input_path :: path
  g_output_dir :: path
  g_quality :: int
  g_use_webp :: bool
  g_webp_method :: int
  g_resize_percentage :: "int option"
  g_max_dimension :: "int option"
  g_strip_exif :: bool

text \<open>Lines 23-25 of \<open>image_compressor_gui.py\<close>.\<close>

definition g_output_path :: "gui_job \<Rightarrow> path" where
  "g_output_path g =
     os_path_join (g_output_dir g)
       (splitext_root (os_path_basename (g_input_path g))
          @ (if g_use_webp g then ''.webp'' else ''.png''))"

text \<open>Lines 36-41.\<close>

definition gui_resize_stage :: "'img imaging \<Rightarrow> gui_job \<Rightarrow> 'img \<Rightarrow> exn + 'img" where
  "gui_resize_stage lib g img =
     (if truthy (g_resize_percentage g) \<and> the (g_resize_percentage g) < 100 then
        im_resize lib img (scaled_size (the (g_resize_percentage g)) (im_size lib img))
      else if truthy (g_max_dimension g) then
        im_thumbnail lib img (the (g_max_dimension g), the (g_max_dimension g))
      else Inr img)"

text \<open>Lines 43-51.\<close>

definition gui_encode_stage :: "'img imaging \<Rightarrow> gui_job \<Rightarrow> 'img \<Rightarrow> unit io" where
  "gui_encode_stage lib g img =
     (if g_use_webp g then
        Image_save lib img (g_output_path g) (Some ''webp'')
          (Some (g_quality g, g_webp_method g))
      else
        (case and_then (if im_mode lib img \<noteq> ''RGB'' then im_convert_rgb lib img else Inr img)
                (\<lambda>rgb. im_quantize lib rgb NONE)
         of Inl e \<Rightarrow> raise_io e
          | Inr pal \<Rightarrow> Image_save lib pal (g_output_path g) (Some ''png'') None))"

text \<open>The body of the \<open>try\<close> statement, lines 28-53.\<close>

definition compress_image_worker_try :: "'img imaging \<Rightarrow> gui_job \<Rightarrow> string io" where
  "compress_image_worker_try lib g =
     bind_io (reading (\<lambda>w. Image_open lib w (g_input_path g))) (\<lambda>img.
     bind_io (reading (\<lambda>w. strip_stage lib (g_strip_exif g) img)) (\<lambda>img.
     bind_io (reading (\<lambda>w. gui_resize_stage lib g img)) (\<lambda>img.
     bind_io (gui_encode_stage lib g img) (\<lambda>_.
     return_io (''SUCCESS: '' @ os_path_basename (g_input_path g) @ '' -> ''
                  @ os_path_basename (g_output_path g))))))"

text \<open>\<open>compress_image_worker(args_tuple)\<close>, lines 20-55.\<close>

definition compress_image_worker :: "'img imaging \<Rightarrow> gui_job \<Rightarrow> string io" where
  "compress_image_worker lib g =
     try_except (compress_image_worker_try lib g)
       (\<lambda>e. return_io (''ERROR: Compressing '' @ os_path_basename (g_input_path g) @ '': ''
                          @ exn_str e))"


section \<open>The batch orchestrator: \<open>main\<close>\<close>

text \<open>
  The parsed command line, after lines 91-128 have filled in a missing input or output
  path from the file dialogs (\<open>main\<close> returns there when a dialog is cancelled, so both
  paths are non-empty from line 130 on).
\<close>

record args =
  arg_input :: path
  arg_output :: path
  arg_quality :: int
  arg_no_webp :: bool
  arg_webp_method :: int
  arg_resize :: "int option"
  arg_max_dim :: "int option"
  arg_strip_exif :: bool
  arg_no_parallel :: bool

text \<open>The tuple appended to \<open>tasks\<close> in lines 139 and 141.\<close>

definition make_task :: "args \<Rightarrow> path \<Rightarrow> path \<Rightarrow> job" where
  "make_task a in_file out_file =
     \<lparr>input_path = in_file, output_path = out_file, quality = arg_quality a,
      use_webp = (\<not> arg_no_webp a), webp_method = arg_webp_method a,
      resize_percentage = arg_resize a, max_dimension = arg_max_dim a,
      strip_exif = arg_strip_exif a, dither = NONE\<rparr>"

text \<open>Lines 137-139, for one \<open>filename\<close> of the listing.\<close>

definition dir_task :: "args \<Rightarrow> string \<Rightarrow> job" where
  "dir_task a filename =
     make_task a (os_path_join (arg_input a) filename)
       (os_path_join (arg_output a)
          (splitext_root filename @ (if \<not> arg_no_webp a then ''.webp'' else ''.png'')))"

text \<open>Lines 131-141: building \<open>tasks\<close>.\<close>

definition main_tasks :: "args \<Rightarrow> job list io" where
  "main_tasks a w =
     (if os_path_isdir w (arg_input a) then
        bind_io
          (\<lambda>w. if \<not> os_path_exists w (arg_output a) then os_makedirs (arg_output a) w
                else (Inr (), w))
          (\<lambda>_. reading (\<lambda>w.
             Inr (map (dir_task a) (filter is_image_name (os_listdir w (arg_input a)))))) w
      else return_io [make_task a (arg_input a) (arg_output a)] w)"

text \<open>\<open>if result: print(result)\<close>.\<close>

definition print_result :: "string option \<Rightarrow> unit io" where
  "print_result result =
     (case result of
        None \<Rightarrow> return_io ()
      | Some s \<Rightarrow> if s \<noteq> [] then print s else return_io ())"

text \<open>Lines 155-158: the sequential loop.\<close>

fun run_sequential :: "'img imaging \<Rightarrow> job list \<Rightarrow> unit io" where
  "run_sequential lib [] = return_io ()"
| "run_sequential lib (task # tasks) =
     bind_io (compress_image lib task) (\<lambda>result.
     bind_io (print_result result) (\<lambda>_.
     run_sequential lib tasks))"

text \<open>
  The process pool.  Each worker runs \<open>compress_image\<close> on the shared file system and
  standard output; the order in which the jobs take effect is not fixed by the program.
  A schedule is a list of job indices: the jobs it names run first, in that order, and
  the others after them, so every job runs exactly once whatever the list is.  A job
  acts on the world as one step.
\<close>

definition completion_order :: "nat list \<Rightarrow> nat \<Rightarrow> nat list" where
  "completion_order sched n =
     remdups (filter (\<lambda>i. i < n) sched) @ filter (\<lambda>i. i \<notin> set sched) [0..<n]"

fun pool_run ::
  "'img imaging \<Rightarrow> job list \<Rightarrow> nat list \<Rightarrow> world
     \<Rightarrow> (nat \<times> (exn + string option)) list \<times> world" where
  "pool_run lib tasks [] w = ([], w)"
| "pool_run lib tasks (i # rest) w =
     (case compress_image lib (tasks ! i) w of (r, w1) \<Rightarrow>
        (case pool_run lib tasks rest w1 of (finished, w2) \<Rightarrow> ((i, r) # finished, w2)))"

text \<open>
  \<open>executor.map(compress_image, tasks)\<close>: the iterator yields the result of the first
  task, then of the second, and so on, whatever order the workers finished in.  An
  exception raised by a worker is kept and raised again when its result is reached.
  The lines the workers print themselves are placed before the lines the orchestrator
  prints for the results; how the two interleave on a terminal is not fixed by the
  program, and no statement below depends on it.
\<close>

definition executor_map ::
  "'img imaging \<Rightarrow> job list \<Rightarrow> nat list \<Rightarrow> world \<Rightarrow> (exn + string option) list \<times> world" where
  "executor_map lib tasks sched w =
     (case pool_run lib tasks (completion_order sched (length tasks)) w of
        (finished, w') \<Rightarrow>
          (map (\<lambda>i. case map_of finished i of Some r \<Rightarrow> r | None \<Rightarrow> Inr None)
             [0..<length tasks], w'))"

text \<open>Lines 150-152: the loop over the iterator.\<close>

fun emit_results :: "(exn + string option) list \<Rightarrow> unit io" where
  "emit_results [] = return_io ()"
| "emit_results (r # results) =
     (case r of
        Inl e \<Rightarrow> raise_io e
      | Inr result \<Rightarrow> bind_io (print_result result) (\<lambda>_. emit_results results))"

text \<open>
  Lines 143-160.  \<open>cpu_count\<close> is \<open>multiprocessing.cpu_count()\<close> and \<open>sched\<close> the
  schedule of the pool.
\<close>

definition main_run :: "'img imaging \<Rightarrow> nat \<Rightarrow> nat list \<Rightarrow> args \<Rightarrow> job list \<Rightarrow> unit io" where
  "main_run lib cpu_count sched a tasks =
     bind_io (print (''Starting compression for '' @ show_nat (length tasks)
                       @ '' image(s)...'')) (\<lambda>_.
     bind_io
       (if 1 < length tasks \<and> \<not> arg_no_parallel a then
          bind_io (print (''Using '' @ show_nat cpu_count
                            @ '' CPU cores for parallel processing...'')) (\<lambda>_.
          (\<lambda>w. case executor_map lib tasks sched w of
                  (results, w') \<Rightarrow> emit_results results w'))
        else run_sequential lib tasks) (\<lambda>_.
     print ([CHR 0x0A] @ ''Compression complete.'')))"

text \<open>\<open>main()\<close> from line 130 on.\<close>

definition main :: "'img imaging \<Rightarrow> nat \<Rightarrow> nat list \<Rightarrow> args \<Rightarrow> unit io" where
  "main lib cpu_count sched a =
     bind_io (main_tasks a) (\<lambda>tasks. main_run lib cpu_count sched a tasks)"


section \<open>An instance of the imaging library\<close>

text \<open>
  A small library over pictures that carry a mode, a size and a transparency marker,
  used to run the workers on concrete inputs.  An encoded picture is a four-byte header
  (format, mode, width, height) followed by one byte per pixel.  Quantizing a picture
  with an alpha channel gives a palette picture that keeps a transparency marker.
\<close>

record picture =
  pic_mode :: string
  pic_size :: "nat \<times> nat"
  pic_transparency :: bool

definition demo_open :: "bytes \<Rightarrow> exn + picture" where
  "demo_open b =
     (case b of
        f # m # x # y # _ \<Rightarrow>
          if m = 0 then
            Inr \<lparr>pic_mode = ''RGB'', pic_size = (unat x, unat y), pic_transparency = False\<rparr>
          else if m = 1 then
            Inr \<lparr>pic_mode = ''RGBA'', pic_size = (unat x, unat y), pic_transparency = False\<rparr>
          else if m = 2 then
            Inr \<lparr>pic_mode = ''P'', pic_size = (unat x, unat y), pic_transparency = False\<rparr>
          else if m = 3 then
            Inr \<lparr>pic_mode = ''P'', pic_size = (unat x, unat y), pic_transparency = True\<rparr>
          else Inl (Exception ''cannot identify image file'')
      | _ \<Rightarrow> Inl (Exception ''cannot identify image file''))"

definition demo_resize :: "picture \<Rightarrow> int \<times> int \<Rightarrow> exn + picture" where
  "demo_resize img sz =
     (case sz of (x, y) \<Rightarrow>
        if x \<le> 0 \<or> y \<le> 0 then Inl (Exception ''height and width must be > 0'')
        else Inr (img\<lparr>pic_size := (nat x, nat y)\<rparr>))"

definition demo_thumbnail :: "picture \<Rightarrow> int \<times> int \<Rightarrow> exn + picture" where
  "demo_thumbnail img sz =
     (case (pic_size img, sz) of ((x, y), (mx, my)) \<Rightarrow>
        if int x \<le> mx \<and> int y \<le> my then Inr img
        else if y \<le> x then Inr (img\<lparr>pic_size := (nat mx, max 1 (y * nat mx div x))\<rparr>)
        else Inr (img\<lparr>pic_size := (max 1 (x * nat my div y), nat my)\<rparr>))"

definition demo_format :: "path \<Rightarrow> string option \<Rightarrow> exn + 8 word" where
  "demo_format p fmt =
     (case fmt of
        Some f \<Rightarrow>
          if f = ''png'' then Inr 1 else if f = ''webp'' then Inr 2
          else Inl (Exception (''unknown format: '' @ f))
      | None \<Rightarrow>
          if endswith (lower p) ''.png'' then Inr 1
          else if endswith (lower p) ''.webp'' then Inr 2
          else if endswith (lower p) ''.jpg'' \<or> endswith (lower p) ''.jpeg'' then Inr 3
          else Inl (Exception (''unknown file extension in '' @ p)))"

definition demo_encode ::
  "picture \<Rightarrow> path \<Rightarrow> string option \<Rightarrow> (int \<times> int) option \<Rightarrow> exn + bytes" where
  "demo_encode img p fmt params =
     (case demo_format p fmt of
        Inl e \<Rightarrow> Inl e
      | Inr f \<Rightarrow>
          if f = 3 \<and> pic_mode img \<noteq> ''RGB'' then
            Inl (Exception (''cannot write mode '' @ pic_mode img @ '' as JPEG''))
          else
            Inr ([f, if pic_mode img = ''RGB'' then 0 else if pic_mode img = ''RGBA'' then 1
                     else if pic_transparency img then 3 else 2,
                  of_nat (fst (pic_size img)), of_nat (snd (pic_size img))]
                 @ replicate (fst (pic_size img) * snd (pic_size img)) 0))"

definition demo_lib :: "picture imaging" where
  "demo_lib =
     \<lparr>im_open = demo_open,
      im_size = pic_size,
      im_mode = pic_mode,
      im_has_transparency = pic_transparency,
      im_rebuild = (\<lambda>img. Inr (img\<lparr>pic_transparency := False\<rparr>)),
      im_resize = demo_resize,
      im_thumbnail = demo_thumbnail,
      im_quantize = (\<lambda>img d. Inr (img\<lparr>pic_mode := ''P'',
         pic_transparency := (pic_mode img = ''RGBA'' \<or> pic_transparency img)\<rparr>)),
      im_convert_rgb = (\<lambda>img. Inr (img\<lparr>pic_mode := ''RGB''\<rparr>)),
      im_encode = demo_encode\<rparr>"

section \<open>Notions used in the statements\<close>



text \<open>
  The lines \<open>main\<close> and the worker print: the worker's notice for a skipped job, the one
  line a job accounts for given its outcome, and the lines around the batch.
\<close>

definition skip_line :: "job \<Rightarrow> string" where
  "skip_line j = ''Skipping missing file: '' @ input_path j"


definition start_line :: "nat \<Rightarrow> string" where
  "start_line n = ''Starting compression for '' @ show_nat n @ '' image(s)...''"

definition cores_line :: "nat \<Rightarrow> string" where
  "cores_line n = ''Using '' @ show_nat n @ '' CPU cores for parallel processing...''"

definition complete_line :: string where
  "complete_line = [CHR 0x0A] @ ''Compression complete.''"


text \<open>
  \<open>undisturbed tasks w0 D w\<close>: the world \<open>w\<close> is \<open>w0\<close> after the jobs with indices in
  \<open>D\<close> have run: the directories are the same, files differ at most at the output paths
  of those jobs, and what existed still exists.
\<close>

definition undisturbed :: "job list \<Rightarrow> world \<Rightarrow> nat set \<Rightarrow> world \<Rightarrow> bool" where
  "undisturbed tasks w0 D w =
     (D \<subseteq> {..<length tasks} \<and> dirs w = dirs w0
      \<and> (\<forall>k. k \<notin> (\<lambda>i. fs_key (output_path (tasks ! i))) ` D
             \<longrightarrow> map_of (files w) k = map_of (files w0) k)
      \<and> (\<forall>p. os_path_exists w0 p \<longrightarrow> os_path_exists w p))"

text \<open>
  The job the command-line worker gets for the same work as the job \<open>g\<close> of the graphical
  front end: the same fields, the output path the front end's worker derives, and the
  dither mode it hard-codes.
\<close>

definition cli_job_of :: "gui_job \<Rightarrow> job" where
  "cli_job_of g =
     \<lparr>input_path = g_input_path g, output_path = g_output_path g, quality = g_quality g,
      use_webp = g_use_webp g, webp_method = g_webp_method g,
      resize_percentage = g_resize_percentage g, max_dimension = g_max_dimension g,
      strip_exif = g_strip_exif g, dither = NONE\<rparr>"

text \<open>
  The image that reaches the encode stage of the front end's worker.
\<close>

definition gui_staged :: "'img imaging \<Rightarrow> gui_job \<Rightarrow> world \<Rightarrow> exn + 'img" where
  "gui_staged lib g w =
     and_then (Image_open lib w (g_input_path g)) (\<lambda>img.
     and_then (strip_stage lib (g_strip_exif g) img) (\<lambda>img.
     gui_resize_stage lib g img))"

text \<open>
  A sufficient condition on the image to encode for the two non-lossy branches to
  quantize the same picture.
\<close>

definition encode_alike :: "'img imaging \<Rightarrow> 'img \<Rightarrow> bool" where
  "encode_alike lib img =
     (if im_mode lib img = ''RGB''
      then im_has_transparency lib img \<or> im_convert_rgb lib img = Inr img
      else im_mode lib img \<noteq> ''RGBA'' \<and> \<not> im_has_transparency lib img)"


section \<open>Concrete inputs\<close>


text \<open>
  Worlds.  \<open>w_bad\<close>: a directory \<open>in\<close> with one file that is not an image, and no
  output directory.  \<open>w_one\<close>: directories \<open>in\<close> and \<open>out\<close>, and one RGB picture of 3 by 3
  pixels.  \<open>w_two\<close>: the same with a second picture of 2 by 2 pixels; \<open>w_two_done\<close> is
  \<open>w_two\<close> after both have been compressed to WebP, the second first.  \<open>w_rgba\<close>: one
  RGBA picture.  \<open>w_inplace\<close>: a directory with \<open>a.jpg\<close> and \<open>a.png\<close>, to be compressed in
  place.
\<close>

definition w_bad :: world where
  "w_bad = \<lparr>files = [(''in/bad.png'', [1, 9, 1, 1])], dirs = [''in''], stdout = [],
            makedirs_calls = []\<rparr>"

definition w_one :: world where
  "w_one = \<lparr>files = [(''in/a.png'', [1, 0, 3, 3, 0, 0, 0, 0, 0, 0, 0, 0, 0])],
            dirs = [''in'', ''out''], stdout = [], makedirs_calls = []\<rparr>"

definition w_two :: world where
  "w_two = \<lparr>files = [(''in/a.png'', [1, 0, 3, 3, 0, 0, 0, 0, 0, 0, 0, 0, 0]),
                     (''in/b.png'', [1, 0, 2, 2, 0, 0, 0, 0])],
            dirs = [''in'', ''out''], stdout = [], makedirs_calls = []\<rparr>"

definition w_two_done :: world where
  "w_two_done = w_two\<lparr>files := files w_two @
      [(''out/b.webp'', [2, 0, 2, 2, 0, 0, 0, 0]),
       (''out/a.webp'', [2, 0, 3, 3, 0, 0, 0, 0, 0, 0, 0, 0, 0])]\<rparr>"

definition w_rgba :: world where
  "w_rgba = \<lparr>files = [(''in/t.png'', [1, 1, 2, 2, 0, 0, 0, 0])],
             dirs = [''in'', ''out''], stdout = [], makedirs_calls = []\<rparr>"


text \<open>
  Command lines: a directory into another one, a directory in place as PNG, a single
  file that does not exist, and a single file into a directory that does not exist.
\<close>

definition a_dir :: args where
  "a_dir = \<lparr>arg_input = ''in'', arg_output = ''out'', arg_quality = 85,
      arg_no_webp = False, arg_webp_method = 4, arg_resize = None, arg_max_dim = None,
      arg_strip_exif = False, arg_no_parallel = False\<rparr>"


definition a_gone :: args where
  "a_gone = \<lparr>arg_input = ''in/gone.png'', arg_output = ''out/gone.webp'', arg_quality = 85,
      arg_no_webp = False, arg_webp_method = 4, arg_resize = None, arg_max_dim = None,
      arg_strip_exif = False, arg_no_parallel = False\<rparr>"


text \<open>
  Jobs and pictures for the command-line worker, the batches the two directory command
  lines give, and the result lines of the two jobs of \<open>tasks_two\<close>.
\<close>

definition j_bad :: job where
  "j_bad = \<lparr>input_path = ''in/bad.png'', output_path = ''out/bad.webp'', quality = 85,
      use_webp = True, webp_method = 4, resize_percentage = None, max_dimension = None,
      strip_exif = False, dither = NONE\<rparr>"

definition j_gone :: job where
  "j_gone = \<lparr>input_path = ''in/gone.png'', output_path = ''out/gone.webp'', quality = 85,
      use_webp = True, webp_method = 4, resize_percentage = None, max_dimension = None,
      strip_exif = False, dither = NONE\<rparr>"

definition j_half :: job where
  "j_half = \<lparr>input_path = ''in/a.png'', output_path = ''out/a.webp'', quality = 85,
      use_webp = True, webp_method = 4, resize_percentage = Some 50, max_dimension = None,
      strip_exif = False, dither = NONE\<rparr>"

definition pic3 :: picture where
  "pic3 = \<lparr>pic_mode = ''RGB'', pic_size = (3, 3), pic_transparency = False\<rparr>"

definition tasks_two :: "job list" where
  "tasks_two = [dir_task a_dir ''a.png'', dir_task a_dir ''b.png'']"


definition line_a :: string where
  "line_a = ''  - Input: a.png (0.01 KB) -> Output: a.webp (0.01 KB)''"

definition line_b :: string where
  "line_b = ''  - Input: b.png (0.01 KB) -> Output: b.webp (0.01 KB)''"

text \<open>
  Jobs for the worker of the graphical front end: a missing input, a percentage above
  100 together with a maximum dimension, an RGBA picture to PNG, an RGB picture halved to
  PNG.
\<close>

definition g_gone :: gui_job where
  "g_gone = \<lparr>g_input_path = ''in/gone.png'', g_output_dir = ''out'', g_quality = 85,
      g_use_webp = True, g_webp_method = 4, g_resize_percentage = None,
      g_max_dimension = None, g_strip_exif = False\<rparr>"

definition g_big :: gui_job where
  "g_big = \<lparr>g_input_path = ''in/a.png'', g_output_dir = ''out'', g_quality = 85,
      g_use_webp = True, g_webp_method = 4, g_resize_percentage = Some 150,
      g_max_dimension = Some 2, g_strip_exif = False\<rparr>"

definition g_png :: gui_job where
  "g_png = \<lparr>g_input_path = ''in/t.png'', g_output_dir = ''out'', g_quality = 85,
      g_use_webp = False, g_webp_method = 4, g_resize_percentage = None,
      g_max_dimension = None, g_strip_exif = False\<rparr>"

definition g_rgb :: gui_job where
  "g_rgb = \<lparr>g_input_path = ''in/a.png'', g_output_dir = ''out'', g_quality = 85,
      g_use_webp = False, g_webp_method = 4, g_resize_percentage = Some 50,
      g_max_dimension = None, g_strip_exif = False\<rparr>"


section \<open>Basic facts\<close>

lemmas path_defs = sep_def all_seps_def rstrip_sep_def os_path_basename_def os_path_dirname_def
  os_path_join_def splitext_root_def fs_key_def py_repr_def lower_def char_lower_def
  endswith_def is_image_name_def

lemmas os_defs = os_path_isdir_def is_file_def os_path_exists_def os_path_getsize_def
  with_parents_def os_makedirs_def os_listdir_def round_half_even_def fmt_2f_def
  get_file_size_def show_nat.simps

lemmas io_defs = return_io_def raise_io_def bind_io_def reading_def try_except_def print_def
  and_then_def

lemmas worker_defs = Image_open_def Image_save_def truthy_def int_div_100_def scaled_size_def
  strip_stage_def resize_stage_def ensure_output_dir_def encode_stage_def success_line_def
  error_line_def compress_image_try_def compress_image_def g_output_path_def
  gui_resize_stage_def gui_encode_stage_def compress_image_worker_try_def
  compress_image_worker_def

lemmas demo_defs = demo_open_def demo_resize_def demo_thumbnail_def demo_format_def
  demo_encode_def demo_lib_def

lemma get_file_size_exists:
  "os_path_exists w p \<Longrightarrow> \<exists>s. get_file_size w p = Inr s"
  by (auto simp: get_file_size_def os_path_getsize_def os_path_exists_def is_file_def
      os_path_isdir_def split: option.splits)

lemma compress_image_skip:
  "input_path j = [] \<or> \<not> os_path_exists w (input_path j) \<Longrightarrow>
   compress_image lib j w =
     (Inr None, w\<lparr>stdout := stdout w @ [''Skipping missing file: '' @ input_path j]\<rparr>)"
  by (auto simp: compress_image_def bind_io_def print_def return_io_def)

lemma compress_image_run:
  "input_path j \<noteq> [] \<Longrightarrow> os_path_exists w (input_path j) \<Longrightarrow>
   compress_image lib j w =
     (case compress_image_try lib j w of
        (Inl e, w') \<Rightarrow> (Inr (Some (error_line j e)), w')
      | (Inr line, w') \<Rightarrow> (Inr (Some line), w'))"
  by (simp add: compress_image_def try_except_def bind_io_def return_io_def
      split: prod.splits sum.splits)


section \<open>C1: the worker contains every failure\<close>

text \<open>
  C1.  \<open>compress_image\<close> never raises: for every library, job and world it returns a
  result.  When the body of its \<open>try\<close> statement raises \<open>e\<close> in any stage (size query,
  decode, strip, resize, directory creation, encode), the result is the string
  \<open>Error compressing <basename of the input>: <str(e)>\<close>.
\<close>

theorem compress_image_never_raises:
  "(\<exists>r. fst (compress_image lib j w) = Inr r) \<and>
   (input_path j \<noteq> [] \<longrightarrow> os_path_exists w (input_path j) \<longrightarrow>
    compress_image_try lib j w = (Inl e, w1) \<longrightarrow>
      compress_image lib j w =
        (Inr (Some (''Error compressing '' @ os_path_basename (input_path j) @ '': ''
                      @ exn_str e)), w1))"
proof (cases "input_path j = [] \<or> \<not> os_path_exists w (input_path j)")
  case True
  then show ?thesis by (auto simp: compress_image_skip)
next
  case False
  then have run: "compress_image lib j w =
     (case compress_image_try lib j w of
        (Inl e, w') \<Rightarrow> (Inr (Some (error_line j e)), w')
      | (Inr line, w') \<Rightarrow> (Inr (Some line), w'))"
    by (simp add: compress_image_run)
  obtain r w' where t: "compress_image_try lib j w = (r, w')"
    by (cases "compress_image_try lib j w")
  show ?thesis
  proof (cases r)
    case (Inl a)
    then show ?thesis using run t by (simp add: error_line_def)
  next
    case (Inr b)
    then show ?thesis using run t by simp
  qed
qed

theorem compress_image_never_raises_witness:
  "input_path j_bad \<noteq> [] \<and> os_path_exists w_bad (input_path j_bad)
   \<and> compress_image_try demo_lib j_bad w_bad
       = (Inl (Exception ''cannot identify image file''), w_bad)
   \<and> compress_image demo_lib j_bad w_bad
       = (Inr (Some ''Error compressing bad.png: cannot identify image file''), w_bad)"
proof -
  have h1: "input_path j_bad \<noteq> []" by (simp add: j_bad_def)
  have h2: "os_path_exists w_bad (input_path j_bad)"
    by (simp add: j_bad_def w_bad_def path_defs os_defs)
  have h3: "compress_image_try demo_lib j_bad w_bad
       = (Inl (Exception ''cannot identify image file''), w_bad)"
    by (simp add: w_bad_def j_bad_def path_defs os_defs io_defs worker_defs demo_defs)
  have b: "os_path_basename (input_path j_bad) = ''bad.png''"
    by (simp add: j_bad_def path_defs)
  from compress_image_never_raises [of demo_lib j_bad w_bad "Exception ''cannot identify image file''" w_bad]
    h1 h2 h3 b show ?thesis by simp
qed


section \<open>C2: the percentage resize truncates\<close>






section \<open>C6: a missing input\<close>

lemma Image_open_missing:
  "\<not> os_path_exists w p \<Longrightarrow>
   Image_open lib w p = Inl (Exception (''[Errno 2] No such file or directory: '' @ py_repr p))"
  by (auto simp: Image_open_def os_path_exists_def is_file_def split: option.splits)

text \<open>
  C6, as the claim states it, fails for the worker of the graphical front end: it has no
  existence check, so a missing input makes \<open>Image.open\<close> raise and the worker returns an
  \<open>ERROR\<close> result instead of skipping.
\<close>

theorem gui_missing_input_counterexample:
  "\<not> os_path_exists w_one (g_input_path g_gone)
   \<and> compress_image_worker demo_lib g_gone w_one
       = (Inr (''ERROR: Compressing gone.png: [Errno 2] No such file or directory: ''
                 @ py_repr ''in/gone.png''), w_one)"
  by (simp add: w_one_def g_gone_def path_defs os_defs io_defs worker_defs demo_defs)

text \<open>
  C6, amended.  When \<open>input_path\<close> is empty or nothing exists at it, \<open>compress_image\<close>
  prints \<open>Skipping missing file: <input_path>\<close>, returns \<open>None\<close> and runs no further
  stage: files, directories and the log of \<open>os.makedirs\<close> calls are as before.  The
  worker of the graphical front end returns the \<open>ERROR\<close> line of the failed decode and
  leaves the world unchanged.
\<close>

theorem missing_input_handling:
  "(input_path j = [] \<or> \<not> os_path_exists w (input_path j) \<longrightarrow>
      compress_image lib j w =
        (Inr None, w\<lparr>stdout := stdout w @ [''Skipping missing file: '' @ input_path j]\<rparr>))
   \<and> (\<not> os_path_exists w (g_input_path g) \<longrightarrow>
      compress_image_worker lib g w =
        (Inr (''ERROR: Compressing '' @ os_path_basename (g_input_path g)
                @ '': [Errno 2] No such file or directory: '' @ py_repr (g_input_path g)), w))"
proof -
  have 1: "input_path j = [] \<or> \<not> os_path_exists w (input_path j) \<longrightarrow>
      compress_image lib j w =
        (Inr None, w\<lparr>stdout := stdout w @ [''Skipping missing file: '' @ input_path j]\<rparr>)"
    using compress_image_skip [of j w lib] by blast
  have 2: "\<not> os_path_exists w (g_input_path g) \<longrightarrow>
      compress_image_worker lib g w =
        (Inr (''ERROR: Compressing '' @ os_path_basename (g_input_path g)
                @ '': [Errno 2] No such file or directory: '' @ py_repr (g_input_path g)), w)"
    by (simp add: compress_image_worker_def compress_image_worker_try_def try_except_def
        bind_io_def reading_def return_io_def Image_open_missing)
  from 1 2 show ?thesis by blast
qed

theorem missing_input_handling_witness:
  "\<not> os_path_exists w_one (input_path j_gone)
   \<and> \<not> os_path_exists w_one (g_input_path g_gone)
   \<and> compress_image demo_lib j_gone w_one =
        (Inr None, w_one\<lparr>stdout := [''Skipping missing file: in/gone.png'']\<rparr>)
   \<and> compress_image_worker demo_lib g_gone w_one
       = (Inr (''ERROR: Compressing gone.png: [Errno 2] No such file or directory: ''
                 @ py_repr ''in/gone.png''), w_one)"
proof -
  have h1: "\<not> os_path_exists w_one (input_path j_gone)"
    by (simp add: w_one_def j_gone_def path_defs os_defs)
  have h2: "\<not> os_path_exists w_one (g_input_path g_gone)"
    by (simp add: w_one_def g_gone_def path_defs os_defs)
  have s: "stdout w_one = []" by (simp add: w_one_def)
  have p: "input_path j_gone = ''in/gone.png''" "g_input_path g_gone = ''in/gone.png''"
    "os_path_basename ''in/gone.png'' = ''gone.png''"
    by (simp_all add: j_gone_def g_gone_def path_defs)
  from missing_input_handling [of j_gone w_one demo_lib g_gone] h1 h2 s p
  show ?thesis by simp
qed


section \<open>C9: percentage and maximum dimension together\<close>

lemma replicate_numeral: "replicate (numeral k) x = x # replicate (pred_numeral k) x"
  by (simp add: numeral_eq_Suc)

text \<open>
  C9, as the claim states it, fails for the worker of the graphical front end: with
  \<open>resize_percentage = 150\<close> and \<open>max_dimension = 2\<close> a picture of 3 by 3 pixels is
  written as 2 by 2 (the thumbnail), not as the 4 by 4 of the percentage.
\<close>

theorem gui_percent_counterexample:
  "compress_image_worker demo_lib g_big w_one
     = (Inr ''SUCCESS: a.png -> a.webp'',
        w_one\<lparr>files := files w_one @ [(''out/a.webp'', [2, 0, 2, 2, 0, 0, 0, 0])]\<rparr>)
   \<and> scaled_size 150 (3, 3) = (4, 4)"
  by (simp add: w_one_def g_big_def path_defs os_defs io_defs worker_defs demo_defs
      replicate_numeral)

text \<open>
  C9, amended.  With both fields set, \<open>compress_image\<close> applies the percentage and
  ignores \<open>max_dimension\<close> whenever the percentage is non-zero (a percentage of 0 counts
  as unset, and \<open>max_dimension\<close> applies).  The worker of the graphical front end does
  so only for a non-zero percentage below 100; from 100 on it applies \<open>max_dimension\<close>
  and ignores the percentage.
\<close>

theorem percent_precedence:
  "(p \<noteq> 0 \<longrightarrow>
      resize_stage lib (j\<lparr>resize_percentage := Some p, max_dimension := Some d\<rparr>) img =
        im_resize lib img (scaled_size p (im_size lib img)))
   \<and> (p \<noteq> 0 \<and> p < 100 \<longrightarrow>
      gui_resize_stage lib (g\<lparr>g_resize_percentage := Some p, g_max_dimension := Some d\<rparr>) img =
        im_resize lib img (scaled_size p (im_size lib img)))
   \<and> (100 \<le> q \<and> d \<noteq> 0 \<longrightarrow>
      gui_resize_stage lib (g\<lparr>g_resize_percentage := Some q, g_max_dimension := Some d\<rparr>) img =
        im_thumbnail lib img (d, d))
   \<and> resize_stage lib (j\<lparr>resize_percentage := Some 0, max_dimension := Some d\<rparr>) img =
        (if d \<noteq> 0 then im_thumbnail lib img (d, d) else Inr img)"
  by (simp add: resize_stage_def gui_resize_stage_def truthy_def)

theorem percent_precedence_witness:
  "(50::int) \<noteq> 0 \<and> (50::int) < 100 \<and> (100::int) \<le> 150 \<and> (2::int) \<noteq> 0
   \<and> resize_stage demo_lib (j_half\<lparr>resize_percentage := Some 50, max_dimension := Some 2\<rparr>) pic3
        = Inr (pic3\<lparr>pic_size := (1, 1)\<rparr>)
   \<and> gui_resize_stage demo_lib (g_big\<lparr>g_resize_percentage := Some 50, g_max_dimension := Some 2\<rparr>) pic3
        = Inr (pic3\<lparr>pic_size := (1, 1)\<rparr>)
   \<and> gui_resize_stage demo_lib (g_big\<lparr>g_resize_percentage := Some 150, g_max_dimension := Some 2\<rparr>) pic3
        = Inr (pic3\<lparr>pic_size := (2, 2)\<rparr>)"
  using percent_precedence [where p = 50 and lib = demo_lib and j = j_half and d = 2
      and img = pic3 and g = g_big and q = 150]
  by (simp add: demo_defs pic3_def scaled_size_def int_div_100_def)


section \<open>C5: an input path that does not exist\<close>

lemma not_exists_not_isdir: "\<not> os_path_exists w p \<Longrightarrow> \<not> os_path_isdir w p"
  by (simp add: os_path_exists_def)

text \<open>
  C5, as the claim states it, fails: for an input path that does not exist \<open>main\<close>
  raises nothing; it builds a batch of one job, the worker skips it and the run ends
  with the completion line.
\<close>

theorem missing_input_counterexample:
  "\<not> os_path_exists w_one (arg_input a_gone)
   \<and> main demo_lib 4 [] a_gone w_one =
       (Inr (), w_one\<lparr>stdout := [''Starting compression for 1 image(s)...'',
                                  ''Skipping missing file: in/gone.png'',
                                  [CHR 0x0A] @ ''Compression complete.'']\<rparr>)"
  by (simp add: w_one_def a_gone_def main_def main_tasks_def main_run_def make_task_def
      print_result_def path_defs os_defs io_defs worker_defs)

text \<open>
  C5, amended.  When the input path does not exist, building the batch does not fail: it
  yields the single job for that path and creates nothing, the worker prints
  \<open>Skipping missing file: <path>\<close>, and \<open>main\<close> returns normally after the completion
  line.
\<close>

theorem missing_input_builds_one_job:
  "\<not> os_path_exists w (arg_input a) \<longrightarrow>
     main_tasks a w = (Inr [make_task a (arg_input a) (arg_output a)], w)
     \<and> main lib cpu_count sched a w =
         (Inr (), w\<lparr>stdout := stdout w @
            [''Starting compression for 1 image(s)...'',
             ''Skipping missing file: '' @ arg_input a,
             [CHR 0x0A] @ ''Compression complete.'']\<rparr>)"
proof
  assume h: "\<not> os_path_exists w (arg_input a)"
  have t: "main_tasks a w = (Inr [make_task a (arg_input a) (arg_output a)], w)"
    using not_exists_not_isdir [OF h] by (simp add: main_tasks_def return_io_def)
  let ?j = "make_task a (arg_input a) (arg_output a)"
  let ?w1 = "w\<lparr>stdout := stdout w @ [''Starting compression for 1 image(s)...'']\<rparr>"
  have e: "\<not> os_path_exists ?w1 (input_path ?j)"
    using h by (simp add: make_task_def os_path_exists_def is_file_def os_path_isdir_def)
  have c: "compress_image lib ?j ?w1 =
     (Inr None, ?w1\<lparr>stdout := stdout ?w1 @ [''Skipping missing file: '' @ input_path ?j]\<rparr>)"
    using e by (intro compress_image_skip) simp
  have i: "input_path ?j = arg_input a" by (simp add: make_task_def)
  have r: "main_run lib cpu_count sched a [?j] w =
         (Inr (), w\<lparr>stdout := stdout w @
            [''Starting compression for 1 image(s)...'',
             ''Skipping missing file: '' @ arg_input a,
             [CHR 0x0A] @ ''Compression complete.'']\<rparr>)"
    using c i by (simp add: main_run_def bind_io_def print_def print_result_def return_io_def
        show_nat.simps)
  show "main_tasks a w = (Inr [make_task a (arg_input a) (arg_output a)], w)
     \<and> main lib cpu_count sched a w =
         (Inr (), w\<lparr>stdout := stdout w @
            [''Starting compression for 1 image(s)...'',
             ''Skipping missing file: '' @ arg_input a,
             [CHR 0x0A] @ ''Compression complete.'']\<rparr>)"
    using t r by (simp add: main_def bind_io_def)
qed

theorem missing_input_builds_one_job_witness:
  "\<not> os_path_exists w_one (arg_input a_gone)
   \<and> main_tasks a_gone w_one = (Inr [j_gone], w_one)
   \<and> main demo_lib 4 [1, 0] a_gone w_one =
       (Inr (), w_one\<lparr>stdout := [''Starting compression for 1 image(s)...'',
                                  ''Skipping missing file: in/gone.png'',
                                  [CHR 0x0A] @ ''Compression complete.'']\<rparr>)"
proof -
  have h: "\<not> os_path_exists w_one (arg_input a_gone)"
    by (simp add: w_one_def a_gone_def path_defs os_defs)
  have m: "make_task a_gone (arg_input a_gone) (arg_output a_gone) = j_gone"
    by (simp add: make_task_def a_gone_def j_gone_def)
  have s: "stdout w_one = []" "arg_input a_gone = ''in/gone.png''"
    by (simp_all add: w_one_def a_gone_def)
  from missing_input_builds_one_job [of w_one a_gone demo_lib 4 "[1, 0]"] h m s
  show ?thesis by simp
qed

section \<open>C7: one reported line per job\<close>

lemma bind_io_keeps:
  assumes "\<And>w. Q (snd (m w)) = Q w" and "\<And>a w. Q (snd (f a w)) = Q w"
  shows "Q (snd (bind_io m f w)) = Q w"
proof (cases "m w")
  case (Pair r w1)
  have q: "Q w1 = Q w" using assms(1) [of w] Pair by simp
  show ?thesis
  proof (cases r)
    case (Inl e)
    then show ?thesis using Pair q by (simp add: bind_io_def)
  next
    case (Inr x)
    then show ?thesis using Pair q assms(2) [of x w1] by (simp add: bind_io_def)
  qed
qed

lemma reading_keeps: "Q (snd (reading f w)) = Q w"
  by (simp add: reading_def)

lemma return_io_keeps: "Q (snd (return_io a w)) = Q w"
  by (simp add: return_io_def)

lemma raise_io_keeps: "Q (snd (raise_io a w)) = Q w"
  by (simp add: raise_io_def)

lemma os_makedirs_stdout: "stdout (snd (os_makedirs p w)) = stdout w"
  by (simp add: os_makedirs_def Let_def)

lemma ensure_output_dir_stdout: "stdout (snd (ensure_output_dir p w)) = stdout w"
  by (simp add: ensure_output_dir_def Let_def os_makedirs_stdout)

lemma Image_save_stdout: "stdout (snd (Image_save lib img p fmt params w)) = stdout w"
  by (simp add: Image_save_def split: sum.splits)

lemma encode_stage_stdout: "stdout (snd (encode_stage lib j img w)) = stdout w"
  by (simp add: encode_stage_def Image_save_stdout raise_io_def split: sum.splits)

lemma compress_image_try_stdout: "stdout (snd (compress_image_try lib j w)) = stdout w"
  unfolding compress_image_try_def
  by (intro bind_io_keeps reading_keeps return_io_keeps ensure_output_dir_stdout
      encode_stage_stdout)

lemma success_line_nonempty: "success_line j a b \<noteq> []"
  by (simp add: success_line_def)

lemma error_line_nonempty: "error_line j e \<noteq> []"
  by (simp add: error_line_def)

lemma compress_image_try_line:
  "compress_image_try lib j w = (Inr s, w') \<Longrightarrow> s \<noteq> []"
  by (auto simp: compress_image_try_def bind_io_def reading_def return_io_def
      success_line_nonempty split: sum.splits prod.splits)

lemma compress_image_cases:
  obtains (skipped) "compress_image lib j w =
             (Inr None, w\<lparr>stdout := stdout w @ [skip_line j]\<rparr>)"
  | (reported) s w' where "compress_image lib j w = (Inr (Some s), w')" "s \<noteq> []"
      "stdout w' = stdout w"
proof (cases "input_path j = [] \<or> \<not> os_path_exists w (input_path j)")
  case True
  then show ?thesis using compress_image_skip [of j w lib] skipped by (simp add: skip_line_def)
next
  case False
  then have run: "compress_image lib j w =
     (case compress_image_try lib j w of
        (Inl e, w') \<Rightarrow> (Inr (Some (error_line j e)), w')
      | (Inr line, w') \<Rightarrow> (Inr (Some line), w'))"
    by (simp add: compress_image_run)
  obtain r w' where t: "compress_image_try lib j w = (r, w')"
    by (cases "compress_image_try lib j w")
  have o: "stdout w' = stdout w" using compress_image_try_stdout [of lib j w] t by simp
  show ?thesis
  proof (cases r)
    case (Inl e)
    then show ?thesis using run t o reported [of "error_line j e" w'] 
      by (simp add: error_line_nonempty)
  next
    case (Inr s)
    then show ?thesis using run t o reported [of s w'] compress_image_try_line [of lib j w s w']
      by simp
  qed
qed



lemma completion_order_distinct: "distinct (completion_order sched n)"
  by (auto simp: completion_order_def)

lemma completion_order_set: "set (completion_order sched n) = {0..<n}"
  by (auto simp: completion_order_def)


lemma pool_run_log:
  assumes "distinct order"
  shows "\<exists>h w'. pool_run lib tasks order w = (map (\<lambda>i. (i, Inr (h i))) order, w')
      \<and> stdout w' = stdout w @ map (\<lambda>i. skip_line (tasks ! i)) (filter (\<lambda>i. h i = None) order)
      \<and> (\<forall>i \<in> set order. h i \<noteq> Some [])"
  using assms
proof (induction order arbitrary: w)
  case Nil
  then show ?case by simp
next
  case (Cons i rest)
  have d: "distinct rest" and n: "i \<notin> set rest" using Cons.prems by simp_all
  obtain r w1 where c: "compress_image lib (tasks ! i) w = (Inr r, w1)"
    "stdout w1 = stdout w @ (if r = None then [skip_line (tasks ! i)] else [])"
    "r \<noteq> Some []"
    by (cases rule: compress_image_cases [of lib "tasks ! i" w]) auto
  obtain h w2 where p: "pool_run lib tasks rest w1 = (map (\<lambda>i. (i, Inr (h i))) rest, w2)"
    "stdout w2 = stdout w1 @ map (\<lambda>i. skip_line (tasks ! i)) (filter (\<lambda>i. h i = None) rest)"
    "\<forall>i \<in> set rest. h i \<noteq> Some []"
    using Cons.IH [OF d, of w1] by blast
  let ?h = "h(i := r)"
  have m: "map (\<lambda>k. (k, Inr (?h k))) rest = map (\<lambda>k. (k, Inr (h k))) rest"
    using n by (intro map_cong) auto
  have f: "filter (\<lambda>k. ?h k = None) rest = filter (\<lambda>k. h k = None) rest"
    using n by (intro filter_cong) auto
  have 1: "pool_run lib tasks (i # rest) w = (map (\<lambda>k. (k, Inr (?h k))) (i # rest), w2)"
    using c(1) p(1) m by simp
  have 2: "stdout w2 = stdout w @ map (\<lambda>k. skip_line (tasks ! k))
             (filter (\<lambda>k. ?h k = None) (i # rest))"
    using c(2) p(2) f by simp
  have 3: "\<forall>k \<in> set (i # rest). ?h k \<noteq> Some []"
    using c(3) p(3) by simp
  from 1 2 3 show ?case by blast
qed

lemma emit_results_lines:
  "emit_results (map (\<lambda>i. Inr (h i)) xs) w =
     (Inr (), w\<lparr>stdout := stdout w @ map (\<lambda>i. the (h i))
                   (filter (\<lambda>i. h i \<noteq> None \<and> h i \<noteq> Some []) xs)\<rparr>)"
proof (induction xs arbitrary: w)
  case Nil
  then show ?case by (simp add: return_io_def)
next
  case (Cons x xs)
  show ?case
  proof (cases "h x")
    case None
    then show ?thesis using Cons.IH [of w]
      by (simp add: bind_io_def print_result_def return_io_def)
  next
    case (Some s)
    then show ?thesis
      using Cons.IH [of "w\<lparr>stdout := stdout w @ [s]\<rparr>"] Cons.IH [of w]
      by (simp add: bind_io_def print_result_def return_io_def print_def)
  qed
qed

lemma executor_map_log:
  "\<exists>h w'. executor_map lib tasks sched w = (map (\<lambda>i. Inr (h i)) [0..<length tasks], w')
     \<and> stdout w' = stdout w @ map (\<lambda>i. skip_line (tasks ! i))
          (filter (\<lambda>i. h i = None) (completion_order sched (length tasks)))
     \<and> (\<forall>i < length tasks. h i \<noteq> Some [])
     \<and> pool_run lib tasks (completion_order sched (length tasks)) w
          = (map (\<lambda>i. (i, Inr (h i))) (completion_order sched (length tasks)), w')"
proof -
  let ?n = "length tasks"
  let ?order = "completion_order sched ?n"
  obtain h w' where p: "pool_run lib tasks ?order w = (map (\<lambda>i. (i, Inr (h i))) ?order, w')"
    "stdout w' = stdout w @ map (\<lambda>i. skip_line (tasks ! i)) (filter (\<lambda>i. h i = None) ?order)"
    "\<forall>i \<in> set ?order. h i \<noteq> Some []"
    using pool_run_log [OF completion_order_distinct, of lib tasks sched ?n w] by blast
  have l: "map_of (map (\<lambda>i. (i, Inr (h i) :: exn + string option)) ?order) i = Some (Inr (h i))"
    if "i < ?n" for i
    using that completion_order_set [of sched ?n]
    by (simp add: map_of_map_restrict restrict_map_def)
  have "map (\<lambda>i. case map_of (map (\<lambda>i. (i, Inr (h i) :: exn + string option)) ?order) i of
                    Some r \<Rightarrow> r | None \<Rightarrow> Inr None) [0..<?n]
        = map (\<lambda>i. Inr (h i)) [0..<?n]"
    by (intro map_cong) (simp_all add: l)
  then have "executor_map lib tasks sched w = (map (\<lambda>i. Inr (h i)) [0..<?n], w')"
    using p(1) by (simp add: executor_map_def)
  moreover have "\<forall>i < ?n. h i \<noteq> Some []"
    using p(3) completion_order_set [of sched ?n] by simp
  ultimately show ?thesis using p(1) p(2) by blast
qed





lemma main_run_parallel:
  assumes "1 < length tasks \<and> \<not> arg_no_parallel a"
  shows "main_run lib cpu_count sched a tasks =
     bind_io (print (start_line (length tasks))) (\<lambda>_.
     bind_io (bind_io (print (cores_line cpu_count)) (\<lambda>_.
          (\<lambda>w. case executor_map lib tasks sched w of
                  (results, w') \<Rightarrow> emit_results results w')))
       (\<lambda>_. print complete_line))"
  unfolding main_run_def start_line_def cores_line_def complete_line_def if_P [OF assms] ..



section \<open>C3: the order of emission in parallel mode\<close>

lemmas main_defs = main_def main_tasks_def main_run_def make_task_def dir_task_def
  print_result_def completion_order_def executor_map_def

lemma upt_0_2: "[0..<2] = [0, 1]"
  by (simp add: upt_rec)

lemma main_tasks_two:
  "main_tasks a_dir w_two = (Inr tasks_two, w_two)"
  by (simp add: tasks_two_def w_two_def a_dir_def main_tasks_def path_defs os_defs io_defs)

lemma order_two: "completion_order [1, 0] 2 = [1, 0]"
  by (simp add: completion_order_def upt_0_2)

text \<open>
  C3, as the claim states it, fails: with two jobs and a pool in which the second job
  finishes first, the orchestrator still prints the line of the first job before the
  line of the second.
\<close>

theorem pool_order_counterexample:
  "pool_run demo_lib tasks_two (completion_order [1, 0] 2)
      (w_two\<lparr>stdout := [start_line 2, cores_line 4]\<rparr>)
     = ([(1, Inr (Some line_b)), (0, Inr (Some line_a))],
        w_two_done\<lparr>stdout := [start_line 2, cores_line 4]\<rparr>)
   \<and> main demo_lib 4 [1, 0] a_dir w_two
     = (Inr (), w_two_done\<lparr>stdout := [start_line 2, cores_line 4, line_a, line_b,
                                         complete_line]\<rparr>)"
  by (simp add: order_two upt_0_2 tasks_two_def w_two_done_def w_two_def a_dir_def line_a_def line_b_def start_line_def
      cores_line_def complete_line_def main_defs path_defs os_defs io_defs worker_defs
      demo_defs replicate_numeral)

text \<open>
  C3, amended.  In parallel mode the orchestrator prints the results in the order the
  jobs were submitted, whatever order the workers finish in: the result lines follow the
  job indices 0, 1, 2, ... of the task list, where \<open>h i\<close> is the outcome the pool
  recorded for job \<open>i\<close>.
\<close>

theorem parallel_emits_in_submission_order:
  assumes "1 < length tasks \<and> \<not> arg_no_parallel a"
  shows "\<exists>h w1 w'.
      pool_run lib tasks (completion_order sched (length tasks))
          (w\<lparr>stdout := stdout w @ [start_line (length tasks), cores_line cpu_count]\<rparr>)
        = (map (\<lambda>i. (i, Inr (h i))) (completion_order sched (length tasks)), w1)
    \<and> main_run lib cpu_count sched a tasks w = (Inr (), w')
    \<and> stdout w' = stdout w1
         @ map (\<lambda>i. the (h i)) (filter (\<lambda>i. h i \<noteq> None) [0..<length tasks])
         @ [complete_line]"
proof -
  let ?n = "length tasks"
  let ?w1 = "w\<lparr>stdout := stdout w @ [start_line ?n, cores_line cpu_count]\<rparr>"
  obtain h w2 where e:
    "executor_map lib tasks sched ?w1 = (map (\<lambda>i. Inr (h i)) [0..<?n], w2)"
    "\<forall>i < ?n. h i \<noteq> Some []"
    "pool_run lib tasks (completion_order sched ?n) ?w1
          = (map (\<lambda>i. (i, Inr (h i))) (completion_order sched ?n), w2)"
    using executor_map_log [of lib tasks sched ?w1] by blast
  let ?R = "map (\<lambda>i. the (h i)) (filter (\<lambda>i. h i \<noteq> None \<and> h i \<noteq> Some []) [0..<?n])"
  let ?w3 = "w2\<lparr>stdout := stdout w2 @ ?R\<rparr>"
  let ?w4 = "?w3\<lparr>stdout := stdout ?w3 @ [complete_line]\<rparr>"
  have f: "filter (\<lambda>i. h i \<noteq> None \<and> h i \<noteq> Some []) [0..<?n]
         = filter (\<lambda>i. h i \<noteq> None) [0..<?n]"
    using e(2) by (intro filter_cong) auto
  have m: "emit_results (map (\<lambda>i. Inr (h i)) [0..<?n]) w2 = (Inr (), ?w3)"
    by (rule emit_results_lines)
  have "main_run lib cpu_count sched a tasks w = (Inr (), ?w4)"
    using e(1) m unfolding main_run_parallel [OF assms]
    by (simp add: bind_io_def print_def)
  moreover have "stdout ?w4 = stdout w2
         @ map (\<lambda>i. the (h i)) (filter (\<lambda>i. h i \<noteq> None) [0..<?n]) @ [complete_line]"
    using f by simp
  ultimately show ?thesis using e(3) by blast
qed

theorem parallel_emits_in_submission_order_witness:
  "(1 < length tasks_two \<and> \<not> arg_no_parallel a_dir)
   \<and> (\<exists>h w1 w'.
      pool_run demo_lib tasks_two (completion_order [1, 0] (length tasks_two))
          (w_two\<lparr>stdout := stdout w_two @ [start_line (length tasks_two), cores_line 4]\<rparr>)
        = (map (\<lambda>i. (i, Inr (h i))) (completion_order [1, 0] (length tasks_two)), w1)
    \<and> main_run demo_lib 4 [1, 0] a_dir tasks_two w_two = (Inr (), w')
    \<and> stdout w' = stdout w1
         @ map (\<lambda>i. the (h i)) (filter (\<lambda>i. h i \<noteq> None) [0..<length tasks_two])
         @ [complete_line])"
proof -
  have h: "1 < length tasks_two \<and> \<not> arg_no_parallel a_dir"
    by (simp add: tasks_two_def a_dir_def)
  from parallel_emits_in_submission_order [OF h, of demo_lib "[1, 0]" w_two 4] h
  show ?thesis by blast
qed

section \<open>C4: who creates the output directory\<close>














lemma exists_stdout_upd [simp]:
  "os_path_exists (w\<lparr>stdout := s\<rparr>) p = os_path_exists w p"
  by (simp add: os_path_exists_def is_file_def os_path_isdir_def)


lemma ensure_output_dir_present:
  "os_path_exists w (os_path_dirname out) \<Longrightarrow> ensure_output_dir out w = (Inr (), w)"
  by (simp add: ensure_output_dir_def)










lemma print_quiet: "makedirs_calls (snd (print s w)) = makedirs_calls w"
  by (simp add: print_def)










section \<open>C8: parallel and sequential outcomes\<close>








lemma undisturbed_stdout [simp]:
  "undisturbed tasks w0 D (w\<lparr>stdout := s\<rparr>) = undisturbed tasks w0 D w"
  by (simp add: undisturbed_def)













section \<open>C10: the two workers compared\<close>

text \<open>
  C10, as the claim states it, fails in each of the three respects it names.  For a
  missing input the command-line worker skips and the front end's worker reports an
  error.  For \<open>resize_percentage = 150\<close> (with \<open>max_dimension = 2\<close>) the command-line
  worker writes a picture of 4 by 4 pixels and the front end's worker one of 2 by 2.
  For an RGBA input and PNG output the command-line worker quantizes the picture with its
  alpha channel, and the front end's worker converts it to RGB first.
\<close>

theorem workers_differ_counterexample:
  "fst (compress_image demo_lib (cli_job_of g_gone) w_one) = Inr None
   \<and> fst (compress_image_worker demo_lib g_gone w_one)
       = Inr (''ERROR: Compressing gone.png: [Errno 2] No such file or directory: ''
                @ py_repr ''in/gone.png'')
   \<and> map_of (files (snd (compress_image demo_lib (cli_job_of g_big) w_one))) ''out/a.webp''
       = Some [2, 0, 4, 4, 0, 0, 0, 0, 0, 0, 0, 0, 0, 0, 0, 0, 0, 0, 0, 0]
   \<and> map_of (files (snd (compress_image_worker demo_lib g_big w_one))) ''out/a.webp''
       = Some [2, 0, 2, 2, 0, 0, 0, 0]
   \<and> map_of (files (snd (compress_image demo_lib (cli_job_of g_png) w_rgba))) ''out/t.png''
       = Some [1, 3, 2, 2, 0, 0, 0, 0]
   \<and> map_of (files (snd (compress_image_worker demo_lib g_png w_rgba))) ''out/t.png''
       = Some [1, 2, 2, 2, 0, 0, 0, 0]"
  by (simp add: cli_job_of_def g_gone_def g_big_def g_png_def w_one_def w_rgba_def path_defs
      os_defs io_defs worker_defs demo_defs replicate_numeral Let_def)

lemma Image_save_then_size:
  "Image_save lib img p fmt params w = (Inr u, w1) \<Longrightarrow> \<exists>s. get_file_size w1 p = Inr s"
  by (auto simp: Image_save_def get_file_size_def os_path_getsize_def update_conv'
      split: sum.splits if_splits)

lemma encode_stage_then_size:
  "encode_stage lib j img w = (Inr u, w1) \<Longrightarrow> \<exists>s. get_file_size w1 (output_path j) = Inr s"
  by (auto simp: encode_stage_def raise_io_def split: if_splits sum.splits
      dest: Image_save_then_size)

lemma resize_stages_agree:
  assumes "\<not> (truthy (g_resize_percentage g) \<and> 100 \<le> the (g_resize_percentage g))"
  shows "resize_stage lib (cli_job_of g) img = gui_resize_stage lib g img"
  using assms by (auto simp: resize_stage_def gui_resize_stage_def cli_job_of_def)

lemma encode_stages_agree:
  assumes "g_use_webp g \<or> encode_alike lib img"
    and "g_use_webp g \<or> (\<forall>pal. im_encode lib pal (g_output_path g) None None
            = im_encode lib pal (g_output_path g) (Some ''png'') None)"
  shows "encode_stage lib (cli_job_of g) img w = gui_encode_stage lib g img w"
proof (cases "g_use_webp g")
  case True
  then show ?thesis by (simp add: encode_stage_def gui_encode_stage_def cli_job_of_def)
next
  case False
  then have a: "encode_alike lib img"
    and s: "\<And>pal. Image_save lib pal (g_output_path g) None None
              = Image_save lib pal (g_output_path g) (Some ''png'') None"
    using assms by (auto simp: Image_save_def fun_eq_iff)
  have i: "output_path (cli_job_of g) = g_output_path g" "dither (cli_job_of g) = NONE"
    "use_webp (cli_job_of g) = g_use_webp g"
    by (simp_all add: cli_job_of_def)
  let ?palc = "if im_mode lib img = ''RGBA'' \<or> im_has_transparency lib img
               then im_quantize lib img NONE
               else and_then (im_convert_rgb lib img) (\<lambda>rgb. im_quantize lib rgb NONE)"
  let ?palg = "and_then (if im_mode lib img \<noteq> ''RGB'' then im_convert_rgb lib img else Inr img)
                (\<lambda>rgb. im_quantize lib rgb NONE)"
  have eq: "?palc = ?palg"
    using a by (auto simp: encode_alike_def and_then_def split: if_splits)
  have c: "encode_stage lib (cli_job_of g) img w =
      (case ?palc of Inl e \<Rightarrow> raise_io e
        | Inr pal \<Rightarrow> Image_save lib pal (g_output_path g) None None) w"
    unfolding encode_stage_def i using False by simp
  have q: "gui_encode_stage lib g img w =
      (case ?palg of Inl e \<Rightarrow> raise_io e
        | Inr pal \<Rightarrow> Image_save lib pal (g_output_path g) (Some ''png'') None) w"
    using False by (simp add: gui_encode_stage_def)
  show ?thesis unfolding c q eq by (cases ?palg) (simp_all add: s)
qed

lemma cli_try_staged:
  assumes "os_path_exists w (g_input_path g)"
    and "os_path_exists w (os_path_dirname (g_output_path g))"
    and "\<not> (truthy (g_resize_percentage g) \<and> 100 \<le> the (g_resize_percentage g))"
  shows "\<exists>sz. compress_image_try lib (cli_job_of g) w =
     (case gui_staged lib g w of
        Inl e \<Rightarrow> (Inl e, w)
      | Inr img \<Rightarrow>
          bind_io (encode_stage lib (cli_job_of g) img) (\<lambda>_.
          bind_io (reading (\<lambda>w. get_file_size w (g_output_path g))) (\<lambda>cs.
          return_io (success_line (cli_job_of g) sz cs))) w)"
proof -
  obtain sz where z: "get_file_size w (g_input_path g) = Inr sz"
    using get_file_size_exists [OF assms(1)] by blast
  have e: "ensure_output_dir (g_output_path g) w = (Inr (), w)"
    using assms(2) by (rule ensure_output_dir_present)
  have i: "input_path (cli_job_of g) = g_input_path g"
    "output_path (cli_job_of g) = g_output_path g"
    "strip_exif (cli_job_of g) = g_strip_exif g"
    by (simp_all add: cli_job_of_def)
  have "compress_image_try lib (cli_job_of g) w =
     (case gui_staged lib g w of
        Inl e \<Rightarrow> (Inl e, w)
      | Inr img \<Rightarrow>
          bind_io (encode_stage lib (cli_job_of g) img) (\<lambda>_.
          bind_io (reading (\<lambda>w. get_file_size w (g_output_path g))) (\<lambda>cs.
          return_io (success_line (cli_job_of g) sz cs))) w)"
    using z e
    by (auto simp: compress_image_try_def gui_staged_def i resize_stages_agree [OF assms(3)]
        bind_io_def reading_def and_then_def split: sum.splits)
  then show ?thesis by blast
qed

lemma gui_try_staged:
  "compress_image_worker_try lib g w =
     (case gui_staged lib g w of
        Inl e \<Rightarrow> (Inl e, w)
      | Inr img \<Rightarrow>
          bind_io (gui_encode_stage lib g img) (\<lambda>_.
          return_io (''SUCCESS: '' @ os_path_basename (g_input_path g) @ '' -> ''
                  @ os_path_basename (g_output_path g))) w)"
  by (auto simp: compress_image_worker_try_def gui_staged_def bind_io_def reading_def
      and_then_def split: sum.splits)

lemma exists_nonempty: "os_path_exists w p \<Longrightarrow> p \<noteq> []"
  by (auto simp: os_path_exists_def is_file_def os_path_isdir_def)

lemma compress_image_worker_run:
  "compress_image_worker lib g w =
     (case compress_image_worker_try lib g w of
        (Inl e, w') \<Rightarrow> (Inr (''ERROR: Compressing '' @ os_path_basename (g_input_path g)
                                @ '': '' @ exn_str e), w')
      | (Inr line, w') \<Rightarrow> (Inr line, w'))"
  by (simp add: compress_image_worker_def try_except_def return_io_def
      split: prod.splits sum.splits)

text \<open>
  C10, amended.  On the same job the two workers leave the same world behind (the same
  output file content), and both fail with the same cause or both succeed, whenever the
  input exists, the directory of the output path exists, \<open>resize_percentage\<close> is unset,
  zero or below 100, and either the lossy codec is selected or the image that reaches the
  encode stage is one for which the two non-lossy branches coincide (\<open>encode_alike\<close>: an
  RGB image, or one that is not RGBA and has no transparency marker) and the library
  chooses PNG for the output path.
\<close>

theorem workers_agree_when:
  assumes "os_path_exists w (g_input_path g)"
    and "os_path_exists w (os_path_dirname (g_output_path g))"
    and "\<not> (truthy (g_resize_percentage g) \<and> 100 \<le> the (g_resize_percentage g))"
    and "g_use_webp g \<or> (\<forall>img. gui_staged lib g w = Inr img \<longrightarrow> encode_alike lib img)"
    and "g_use_webp g \<or> (\<forall>pal. im_encode lib pal (g_output_path g) None None
            = im_encode lib pal (g_output_path g) (Some ''png'') None)"
  shows "snd (compress_image lib (cli_job_of g) w) = snd (compress_image_worker lib g w)
     \<and> ((\<exists>e. fst (compress_image lib (cli_job_of g) w)
               = Inr (Some (''Error compressing '' @ os_path_basename (g_input_path g)
                              @ '': '' @ e))
            \<and> fst (compress_image_worker lib g w)
               = Inr (''ERROR: Compressing '' @ os_path_basename (g_input_path g)
                        @ '': '' @ e))
        \<or> (\<exists>a b. fst (compress_image lib (cli_job_of g) w)
               = Inr (Some (success_line (cli_job_of g) a b))
            \<and> fst (compress_image_worker lib g w)
               = Inr (''SUCCESS: '' @ os_path_basename (g_input_path g) @ '' -> ''
                        @ os_path_basename (g_output_path g))))"
proof -
  let ?j = "cli_job_of g"
  let ?ok = "''SUCCESS: '' @ os_path_basename (g_input_path g) @ '' -> ''
                        @ os_path_basename (g_output_path g)"
  have i: "input_path ?j = g_input_path g" "output_path ?j = g_output_path g"
    by (simp_all add: cli_job_of_def)
  have run: "compress_image lib ?j w =
     (case compress_image_try lib ?j w of
        (Inl e, w') \<Rightarrow> (Inr (Some (error_line ?j e)), w')
      | (Inr line, w') \<Rightarrow> (Inr (Some line), w'))"
    using assms(1) exists_nonempty [OF assms(1)] by (intro compress_image_run) (simp_all add: i)
  obtain sz where ct: "compress_image_try lib ?j w =
     (case gui_staged lib g w of
        Inl e \<Rightarrow> (Inl e, w)
      | Inr img \<Rightarrow>
          bind_io (encode_stage lib ?j img) (\<lambda>_.
          bind_io (reading (\<lambda>w. get_file_size w (g_output_path g))) (\<lambda>cs.
          return_io (success_line ?j sz cs))) w)"
    using cli_try_staged [OF assms(1,2,3), of lib] by blast
  note gt = gui_try_staged [of lib g w]
  note gr = compress_image_worker_run [of lib g w]
  show ?thesis
  proof (cases "gui_staged lib g w")
    case (Inl e)
    then have "compress_image lib ?j w = (Inr (Some (error_line ?j e)), w)"
      "compress_image_worker lib g w
         = (Inr (''ERROR: Compressing '' @ os_path_basename (g_input_path g)
                                @ '': '' @ exn_str e), w)"
      using run ct gt gr by simp_all
    then show ?thesis by (simp add: error_line_def i)
  next
    case (Inr img)
    have al: "g_use_webp g \<or> encode_alike lib img" using assms(4) Inr by blast
    have en: "encode_stage lib ?j img w = gui_encode_stage lib g img w"
      using al assms(5) by (rule encode_stages_agree)
    obtain r w1 where e: "encode_stage lib ?j img w = (r, w1)"
      by (cases "encode_stage lib ?j img w")
    show ?thesis
    proof (cases r)
      case (Inl x)
      then have "compress_image lib ?j w = (Inr (Some (error_line ?j x)), w1)"
        "compress_image_worker lib g w
         = (Inr (''ERROR: Compressing '' @ os_path_basename (g_input_path g)
                                @ '': '' @ exn_str x), w1)"
        using run ct gt gr Inr e en by (simp_all add: bind_io_def)
      then show ?thesis by (simp add: error_line_def i)
    next
      case (Inr u)
      then obtain cs where z: "get_file_size w1 (g_output_path g) = Inr cs"
        using encode_stage_then_size [of lib ?j img w u w1] e by (auto simp: i)
      have "compress_image lib ?j w = (Inr (Some (success_line ?j sz cs)), w1)"
        "compress_image_worker lib g w = (Inr ?ok, w1)"
        using run ct gt gr \<open>gui_staged lib g w = Inr img\<close> Inr e en z
        by (simp_all add: bind_io_def reading_def return_io_def)
      then show ?thesis by auto
    qed
  qed
qed

theorem workers_agree_when_witness:
  "snd (compress_image demo_lib (cli_job_of g_rgb) w_one)
     = snd (compress_image_worker demo_lib g_rgb w_one)
   \<and> map_of (files (snd (compress_image_worker demo_lib g_rgb w_one))) ''out/a.png''
     = Some [1, 2, 1, 1, 0]"
proof -
  have h1: "os_path_exists w_one (g_input_path g_rgb)"
    by (simp add: w_one_def g_rgb_def path_defs os_defs)
  have h2: "os_path_exists w_one (os_path_dirname (g_output_path g_rgb))"
    by (simp add: w_one_def g_rgb_def g_output_path_def path_defs os_defs)
  have h3: "\<not> (truthy (g_resize_percentage g_rgb) \<and> 100 \<le> the (g_resize_percentage g_rgb))"
    by (simp add: g_rgb_def)
  have h4: "g_use_webp g_rgb
     \<or> (\<forall>img. gui_staged demo_lib g_rgb w_one = Inr img \<longrightarrow> encode_alike demo_lib img)"
    by (auto simp: gui_staged_def encode_alike_def w_one_def g_rgb_def path_defs os_defs
        io_defs worker_defs demo_defs)
  have h5: "g_use_webp g_rgb
     \<or> (\<forall>pal. im_encode demo_lib pal (g_output_path g_rgb) None None
            = im_encode demo_lib pal (g_output_path g_rgb) (Some ''png'') None)"
    by (simp add: g_rgb_def g_output_path_def path_defs demo_defs)
  have f: "map_of (files (snd (compress_image_worker demo_lib g_rgb w_one))) ''out/a.png''
     = Some [1, 2, 1, 1, 0]"
    by (simp add: w_one_def g_rgb_def path_defs os_defs io_defs worker_defs demo_defs
        replicate_numeral Let_def)
  from workers_agree_when [OF h1 h2 h3 h4 h5] f show ?thesis by blast
qed



end
